theory Spec2Isabelle
  imports Complex_Main "HOL-Library.Log_Nat"
begin

section \<open>The crane operator scene: viewport layout\<close>

text \<open>
  A shallow embedding of \<^verbatim>\<open>static/scenes/craneoperator/js/scene.js\<close>: the layout
  pass \<^verbatim>\<open>calculateViewport_\<close>, the portrait toggle \<^verbatim>\<open>portraitToggleScene\<close>,
  \<^verbatim>\<open>getWidth\<close> and \<^verbatim>\<open>toggleVisibility\<close>.

  \<^item> JavaScript numbers are doubles. The layout pass is embedded twice: once over the
    exact reals (\<open>calculateViewport\<close>) and once with a rounding after every
    arithmetic operation (\<open>calculateViewport_fp\<close>), which with the rounding of IEEE
    754 (\<open>binary64\<close>) is the arithmetic of the language and with the identity is
    the exact pass. The two differ where the comparison of line 204 falls within a
    rounding error of the threshold; the landscape property, which depends on that
    comparison coming out as not below, is stated on the rounded pass. The window
    dimensions are integer pixel counts and every divisor of the pass is positive.
  \<^item> Isabelle does not accept a name that ends in an underscore. The private members
    \<^verbatim>\<open>this.width_\<close>, \<^verbatim>\<open>this.portraitMode_\<close>, ... are the fields
    \<open>this_width\<close>, \<open>this_portraitMode\<close>, ... and the private methods lose the
    trailing underscore (\<open>calculateViewport\<close>, \<open>onClickScene\<close>, ...).
  \<^item> \<^verbatim>\<open>null\<close> and \<^verbatim>\<open>undefined\<close> are \<open>None\<close>.
  \<^item> What a method does to the DOM and to its collaborators is returned as the list of
    these effects, in the order of the source; what it does to the members of the scene
    is the returned scene.
\<close>

subsection \<open>Constants\<close>

text \<open>
  \<^verbatim>\<open>app.Constants\<close> is defined outside the sources at hand, so the five constants
  the layout reads are parameters. The three \<^verbatim>\<open>LEVEL_USABLE_*\<close> constants are grid
  dimensions (numbers of columns and rows), hence natural numbers; the two widths are
  pixel counts.
\<close>

record constants =
  LEVEL_USABLE_MAX_COLS :: nat
  LEVEL_USABLE_MIN_COLS :: nat
  LEVEL_USABLE_ROWS :: nat
  BLOCKLY_MIN_WIDTH :: real
  EDGE_MIN_WIDTH :: real

definition VIEWPORT_TILE_MARGIN :: real where
  "VIEWPORT_TILE_MARGIN = 0.3"

definition VIEWPORT_MAX_TILES_X :: "constants \<Rightarrow> real" where
  "VIEWPORT_MAX_TILES_X c = real (LEVEL_USABLE_MAX_COLS c) + VIEWPORT_TILE_MARGIN * 2"

definition VIEWPORT_MIN_TILES_X :: "constants \<Rightarrow> real" where
  "VIEWPORT_MIN_TILES_X c = real (LEVEL_USABLE_MIN_COLS c) + VIEWPORT_TILE_MARGIN * 1.5"

definition VIEWPORT_MAX_TILES_Y :: "constants \<Rightarrow> real" where
  "VIEWPORT_MAX_TILES_Y c = real (LEVEL_USABLE_ROWS c) + VIEWPORT_TILE_MARGIN * 2"

definition VIEWPORT_MIN_TILES_Y :: real where
  "VIEWPORT_MIN_TILES_Y = 9 + VIEWPORT_TILE_MARGIN * 2"

definition TILE_SIZE :: real where
  "TILE_SIZE = 8"

definition TILE_MARGIN :: real where
  "TILE_MARGIN = 0.4"

definition TILE_OUTER_SIZE :: real where
  "TILE_OUTER_SIZE = TILE_SIZE + TILE_MARGIN"

subsection \<open>The scene, its environment and its effects\<close>

text \<open>
  The members of \<^verbatim>\<open>app.Scene\<close> that the layout reads or writes. The constructor sets
  the two cache keys to \<^verbatim>\<open>null\<close> and \<^verbatim>\<open>portraitMode_\<close> to \<^verbatim>\<open>false\<close>;
  \<^verbatim>\<open>width_\<close> and \<^verbatim>\<open>scaleRatio_\<close> are first assigned by the layout pass and
  \<^verbatim>\<open>visible_\<close> by \<^verbatim>\<open>toggleVisibility\<close>.
\<close>

record scene =
  this_cachedWindowHeight :: "real option"
  this_cachedWindowWidth :: "real option"
  this_portraitMode :: bool
  this_width :: "real option"
  this_scaleRatio :: "real option"
  this_visible :: "bool option"

text \<open>
  What a layout pass reads from outside the scene: \<^verbatim>\<open>window.innerWidth\<close>,
  \<^verbatim>\<open>window.innerHeight\<close> and the value \<^verbatim>\<open>this.blockly_.getToolbarWidth()\<close>
  returns when it is called.
\<close>

record env =
  window_innerWidth :: real
  window_innerHeight :: real
  blockly_getToolbarWidth :: real

datatype css_length = Px real

datatype effect =
    Call_blockly_getToolbarWidth
  | ParentEl_classList_toggle string bool
  | El_style_fontSize css_length
  | El_style_width css_length
  | Call_game_dismissTutorial string
  | El_hidden bool
  | UnderlayEl_hidden bool

subsection \<open>calculateViewport\<close>

text \<open>
  Lines 193 to 195: the value of the local \<^verbatim>\<open>aspectRatio\<close>, as a function of the
  two clamped window dimensions.
\<close>

definition aspectRatio :: "constants \<Rightarrow> real \<Rightarrow> real \<Rightarrow> real" where
  "aspectRatio c innerWidth innerHeight =
     min (max (innerWidth / 2 / innerHeight)
              (VIEWPORT_MIN_TILES_X c / VIEWPORT_MAX_TILES_Y c))
         (VIEWPORT_MAX_TILES_X c / VIEWPORT_MIN_TILES_Y)"

text \<open>
  Lines 176 to 218. The local \<^verbatim>\<open>width\<close> is assigned twice in the source (line 196
  and, in portrait mode, line 206); \<open>tileSize\<close> is computed from the first value.
\<close>

definition calculateViewport ::
    "constants \<Rightarrow> bool \<Rightarrow> env \<Rightarrow> scene \<Rightarrow> effect list \<times> scene" where
  "calculateViewport c force e s =
     (let innerWidth = max 320 (window_innerWidth e);
          innerHeight = max 320 (window_innerHeight e)
      in if \<not> force \<and>
            Some innerHeight = this_cachedWindowHeight s \<and>
            Some innerWidth = this_cachedWindowWidth s
         then ([], s)
         else
           (let width = innerHeight * aspectRatio c innerWidth innerHeight;
                tileSize = max (innerHeight / VIEWPORT_MAX_TILES_Y c)
                               (width / VIEWPORT_MAX_TILES_X c);
                workspaceWidth = innerWidth - blockly_getToolbarWidth e;
                portraitMode = (workspaceWidth - width < BLOCKLY_MIN_WIDTH c);
                width = (if portraitMode then innerWidth - EDGE_MIN_WIDTH c else width);
                scaleRatio = tileSize / (TILE_OUTER_SIZE * 10)
            in ([Call_blockly_getToolbarWidth,
                 ParentEl_classList_toggle ''responsive'' portraitMode,
                 El_style_fontSize (Px (scaleRatio * 10)),
                 El_style_width (Px width)],
                s\<lparr>this_cachedWindowHeight := Some innerHeight,
                  this_cachedWindowWidth := Some innerWidth,
                  this_portraitMode := portraitMode,
                  this_width := Some width,
                  this_scaleRatio := Some scaleRatio\<rparr>)))"

text \<open>
  The constructor (lines 33 to 67): the initial members, then one layout pass with
  \<^verbatim>\<open>force\<close> at its default \<^verbatim>\<open>false\<close>. The resize handler and the animation
  frame callback it registers are later calls \<open>calculateViewport c True\<close>.
\<close>

definition newScene :: scene where
  "newScene = \<lparr>this_cachedWindowHeight = None, this_cachedWindowWidth = None,
               this_portraitMode = False, this_width = None, this_scaleRatio = None,
               this_visible = None\<rparr>"

definition Scene :: "constants \<Rightarrow> env \<Rightarrow> effect list \<times> scene" where
  "Scene c e = calculateViewport c False e newScene"

subsection \<open>Portrait toggle, width and visibility\<close>

text \<open>Lines 240 to 245, and the two click handlers that call it (224 to 234).\<close>

definition portraitToggleScene :: "bool \<Rightarrow> bool \<Rightarrow> scene \<Rightarrow> effect list \<times> scene" where
  "portraitToggleScene visible userAction s =
     ((if userAction then [Call_game_dismissTutorial ''codelab_tray.mp4''] else []) @
      [ParentEl_classList_toggle ''show'' (\<not> visible)], s)"

definition onClickScene :: "scene \<Rightarrow> effect list \<times> scene" where
  "onClickScene s = portraitToggleScene True True s"

definition onClickUnderlay :: "scene \<Rightarrow> effect list \<times> scene" where
  "onClickUnderlay s = portraitToggleScene False True s"

text \<open>
  Lines 286 to 294. \<^verbatim>\<open>!this.visible_\<close> holds for \<^verbatim>\<open>undefined\<close> and for
  \<^verbatim>\<open>false\<close>; the last branch returns the member as it is.
\<close>

definition getWidth :: "constants \<Rightarrow> scene \<Rightarrow> real option" where
  "getWidth c s =
     (if this_visible s \<noteq> Some True then Some 0
      else if this_portraitMode s then Some (EDGE_MIN_WIDTH c)
      else this_width s)"

text \<open>Lines 300 to 306.\<close>

definition toggleVisibility :: "bool \<Rightarrow> scene \<Rightarrow> effect list \<times> scene" where
  "toggleVisibility visible s =
     ([El_hidden (\<not> visible), UnderlayEl_hidden (\<not> visible)],
      s\<lparr>this_visible := Some visible\<rparr>)"

subsection \<open>Sequences of calls\<close>

text \<open>
  The calls that reach a scene after its construction, and the scene they leave.
\<close>

datatype call =
    CalculateViewport bool env
  | PortraitToggleScene bool bool
  | ToggleVisibility bool

fun perform :: "constants \<Rightarrow> scene \<Rightarrow> call \<Rightarrow> scene" where
  "perform c s (CalculateViewport force e) = snd (calculateViewport c force e s)"
| "perform c s (PortraitToggleScene visible userAction) =
     snd (portraitToggleScene visible userAction s)"
| "perform c s (ToggleVisibility visible) = snd (toggleVisibility visible s)"

definition sceneAfter :: "constants \<Rightarrow> env \<Rightarrow> call list \<Rightarrow> scene" where
  "sceneAfter c e0 calls = foldl (perform c) (snd (Scene c e0)) calls"

text \<open>The invariant of the layout result: a width and a scale ratio, both positive.\<close>

definition layoutPositive :: "scene \<Rightarrow> bool" where
  "layoutPositive s =
     ((case this_width s of None \<Rightarrow> False | Some w \<Rightarrow> 0 < w) \<and>
      (case this_scaleRatio s of None \<Rightarrow> False | Some r \<Rightarrow> 0 < r))"

text \<open>
  The constants of the example scenarios: ten and seven usable columns, nine rows
  (so that the tile counts are 10.6, 7.45 and 9.6), and two pixel widths.
\<close>

definition sampleConstants :: constants where
  "sampleConstants = \<lparr>LEVEL_USABLE_MAX_COLS = 10, LEVEL_USABLE_MIN_COLS = 7,
                      LEVEL_USABLE_ROWS = 9, BLOCKLY_MIN_WIDTH = 450,
                      EDGE_MIN_WIDTH = 48\<rparr>"

text \<open>
  The windows of the example scenarios: 1200 by 800 with a toolbar of 300 pixels (too
  narrow for the workspace beside the scene), 1600 by 900 with a toolbar of 250 pixels
  (ample), and 1024 by 768.
\<close>

definition portraitWindow :: env where
  "portraitWindow = \<lparr>window_innerWidth = 1200, window_innerHeight = 800,
                     blockly_getToolbarWidth = 300\<rparr>"

definition landscapeWindow :: env where
  "landscapeWindow = \<lparr>window_innerWidth = 1600, window_innerHeight = 900,
                      blockly_getToolbarWidth = 250\<rparr>"

definition smallWindow :: env where
  "smallWindow = \<lparr>window_innerWidth = 1024, window_innerHeight = 768,
                  blockly_getToolbarWidth = 250\<rparr>"

text \<open>
  Two scenes in use: constructed in one of the windows above, then made visible with
  \<^verbatim>\<open>toggleVisibility(true)\<close>.
\<close>

definition shownPortraitScene :: scene where
  "shownPortraitScene = snd (toggleVisibility True (snd (Scene sampleConstants portraitWindow)))"

definition shownLandscapeScene :: scene where
  "shownLandscapeScene = snd (toggleVisibility True (snd (Scene sampleConstants landscapeWindow)))"

subsection \<open>The layout pass in double precision\<close>

text \<open>
  A JavaScript number is an IEEE 754 double, and each of \<^verbatim>\<open>+\<close>, \<^verbatim>\<open>-\<close>,
  \<^verbatim>\<open>*\<close> and \<^verbatim>\<open>/\<close> returns the double nearest to the exact result. The
  definitions below repeat the constants and the layout pass with a rounding \<open>rd\<close>
  applied to the decimal literals 0.3 and 0.4 and after every arithmetic operation, in
  the order in which the source evaluates them. The other literals (2, 1.5, 8, 9, 10,
  320) and the window dimensions are doubles as they stand; \<^verbatim>\<open>Math.max\<close>,
  \<^verbatim>\<open>Math.min\<close> and \<^verbatim>\<open><\<close> are exact. With the identity for \<open>rd\<close> this is
  \<open>calculateViewport\<close>; with \<open>binary64\<close> it is the arithmetic of the language.
\<close>

definition VIEWPORT_TILE_MARGIN_fp :: "(real \<Rightarrow> real) \<Rightarrow> real" where
  "VIEWPORT_TILE_MARGIN_fp rd = rd 0.3"

definition VIEWPORT_MAX_TILES_X_fp :: "(real \<Rightarrow> real) \<Rightarrow> constants \<Rightarrow> real" where
  "VIEWPORT_MAX_TILES_X_fp rd c =
     rd (real (LEVEL_USABLE_MAX_COLS c) + rd (VIEWPORT_TILE_MARGIN_fp rd * 2))"

definition VIEWPORT_MIN_TILES_X_fp :: "(real \<Rightarrow> real) \<Rightarrow> constants \<Rightarrow> real" where
  "VIEWPORT_MIN_TILES_X_fp rd c =
     rd (real (LEVEL_USABLE_MIN_COLS c) + rd (VIEWPORT_TILE_MARGIN_fp rd * 1.5))"

definition VIEWPORT_MAX_TILES_Y_fp :: "(real \<Rightarrow> real) \<Rightarrow> constants \<Rightarrow> real" where
  "VIEWPORT_MAX_TILES_Y_fp rd c =
     rd (real (LEVEL_USABLE_ROWS c) + rd (VIEWPORT_TILE_MARGIN_fp rd * 2))"

definition VIEWPORT_MIN_TILES_Y_fp :: "(real \<Rightarrow> real) \<Rightarrow> real" where
  "VIEWPORT_MIN_TILES_Y_fp rd = rd (9 + rd (VIEWPORT_TILE_MARGIN_fp rd * 2))"

definition TILE_MARGIN_fp :: "(real \<Rightarrow> real) \<Rightarrow> real" where
  "TILE_MARGIN_fp rd = rd 0.4"

definition TILE_OUTER_SIZE_fp :: "(real \<Rightarrow> real) \<Rightarrow> real" where
  "TILE_OUTER_SIZE_fp rd = rd (TILE_SIZE + TILE_MARGIN_fp rd)"

definition aspectRatio_fp :: "(real \<Rightarrow> real) \<Rightarrow> constants \<Rightarrow> real \<Rightarrow> real \<Rightarrow> real" where
  "aspectRatio_fp rd c innerWidth innerHeight =
     min (max (rd (rd (innerWidth / 2) / innerHeight))
              (rd (VIEWPORT_MIN_TILES_X_fp rd c / VIEWPORT_MAX_TILES_Y_fp rd c)))
         (rd (VIEWPORT_MAX_TILES_X_fp rd c / VIEWPORT_MIN_TILES_Y_fp rd))"

definition calculateViewport_fp ::
    "(real \<Rightarrow> real) \<Rightarrow> constants \<Rightarrow> bool \<Rightarrow> env \<Rightarrow> scene \<Rightarrow> effect list \<times> scene" where
  "calculateViewport_fp rd c force e s =
     (let innerWidth = max 320 (window_innerWidth e);
          innerHeight = max 320 (window_innerHeight e)
      in if \<not> force \<and>
            Some innerHeight = this_cachedWindowHeight s \<and>
            Some innerWidth = this_cachedWindowWidth s
         then ([], s)
         else
           (let width = rd (innerHeight * aspectRatio_fp rd c innerWidth innerHeight);
                tileSize = max (rd (innerHeight / VIEWPORT_MAX_TILES_Y_fp rd c))
                               (rd (width / VIEWPORT_MAX_TILES_X_fp rd c));
                workspaceWidth = rd (innerWidth - blockly_getToolbarWidth e);
                portraitMode = (rd (workspaceWidth - width) < BLOCKLY_MIN_WIDTH c);
                width = (if portraitMode then rd (innerWidth - EDGE_MIN_WIDTH c) else width);
                scaleRatio = rd (tileSize / rd (TILE_OUTER_SIZE_fp rd * 10))
            in ([Call_blockly_getToolbarWidth,
                 ParentEl_classList_toggle ''responsive'' portraitMode,
                 El_style_fontSize (Px (rd (scaleRatio * 10))),
                 El_style_width (Px width)],
                s\<lparr>this_cachedWindowHeight := Some innerHeight,
                  this_cachedWindowWidth := Some innerWidth,
                  this_portraitMode := portraitMode,
                  this_width := Some width,
                  this_scaleRatio := Some scaleRatio\<rparr>)))"

text \<open>
  The rounding of the language: to the nearest double, ties to the even significand.
  The doubles are the integer multiples of their unit in the last place, which is
  \<open>1 / 2 ^ 1074\<close> up to the first binade of the normal numbers and doubles with every
  binade from there on, so that a significand has 53 bits. The overflow to
  \<^verbatim>\<open>Infinity\<close> from \<open>2 ^ 1024\<close> on is not modelled; no pixel count comes near it.
\<close>

definition roundEven :: "real \<Rightarrow> int" where
  "roundEven y =
     (let f = \<lfloor>y\<rfloor>; d = y - of_int f
      in if d < 1 / 2 then f
         else if 1 / 2 < d then f + 1
         else if even f then f else f + 1)"

definition minSubnormal :: real where
  "minSubnormal = 1 / 2 ^ 1074"

definition binary64 :: "real \<Rightarrow> real" where
  "binary64 x =
     (let a = \<bar>x\<bar> / minSubnormal;
          b = bitlen \<lfloor>a\<rfloor>;
          ulp = (if b \<le> 53 then 1 else 2 ^ nat (b - 53))
      in sgn x * (of_int (roundEven (a / ulp)) * ulp * minSubnormal))"

text \<open>
  A window at which the rounding decides: 1000 by 480 with a toolbar of 50 pixels. In
  exact arithmetic the width of line 196 is 500 and 950 - 500 is not below 450; in
  doubles the width is 500.00000000000006 and the difference 449.99999999999994.
\<close>

definition edgeWindow :: env where
  "edgeWindow = \<lparr>window_innerWidth = 1000, window_innerHeight = 480,
                  blockly_getToolbarWidth = 50\<rparr>"

section \<open>Properties\<close>

subsection \<open>Auxiliary facts\<close>

lemma VIEWPORT_MAX_TILES_X_pos: "0 < VIEWPORT_MAX_TILES_X c"
  by (simp add: VIEWPORT_MAX_TILES_X_def VIEWPORT_TILE_MARGIN_def add_nonneg_pos)

lemma VIEWPORT_MIN_TILES_X_pos: "0 < VIEWPORT_MIN_TILES_X c"
  by (simp add: VIEWPORT_MIN_TILES_X_def VIEWPORT_TILE_MARGIN_def add_nonneg_pos)

lemma VIEWPORT_MAX_TILES_Y_pos: "0 < VIEWPORT_MAX_TILES_Y c"
  by (simp add: VIEWPORT_MAX_TILES_Y_def VIEWPORT_TILE_MARGIN_def add_nonneg_pos)

lemma VIEWPORT_MIN_TILES_Y_pos: "0 < VIEWPORT_MIN_TILES_Y"
  by (simp add: VIEWPORT_MIN_TILES_Y_def VIEWPORT_TILE_MARGIN_def)

lemma TILE_OUTER_SIZE_pos: "0 < TILE_OUTER_SIZE"
  by (simp add: TILE_OUTER_SIZE_def TILE_SIZE_def TILE_MARGIN_def)

text \<open>The cache hit of lines 182 to 186: no effect, the scene as it was.\<close>

lemma calculateViewport_hit:
  assumes "\<not> force"
    and "this_cachedWindowHeight s = Some (max 320 (window_innerHeight e))"
    and "this_cachedWindowWidth s = Some (max 320 (window_innerWidth e))"
  shows "calculateViewport c force e s = ([], s)"
  using assms by (simp add: calculateViewport_def)

text \<open>Every pass leaves the two clamped window dimensions in the cache.\<close>

lemma calculateViewport_cache:
  "this_cachedWindowHeight (snd (calculateViewport c force e s)) =
     Some (max 320 (window_innerHeight e)) \<and>
   this_cachedWindowWidth (snd (calculateViewport c force e s)) =
     Some (max 320 (window_innerWidth e))"
  by (auto simp add: calculateViewport_def Let_def)

text \<open>
  A pass reads the window only through the two clamped dimensions, and the toolbar width.
\<close>

lemma calculateViewport_clamped:
  assumes "max 320 (window_innerWidth e) = max 320 (window_innerWidth e')"
    and "max 320 (window_innerHeight e) = max 320 (window_innerHeight e')"
    and "blockly_getToolbarWidth e = blockly_getToolbarWidth e'"
  shows "calculateViewport c force e s = calculateViewport c force e' s"
  unfolding calculateViewport_def assms ..

lemma aspectRatio_pos: "0 < aspectRatio c innerWidth innerHeight"
proof -
  have lo: "0 < VIEWPORT_MIN_TILES_X c / VIEWPORT_MAX_TILES_Y c"
    by (simp add: VIEWPORT_MIN_TILES_X_pos VIEWPORT_MAX_TILES_Y_pos)
  have hi: "0 < VIEWPORT_MAX_TILES_X c / VIEWPORT_MIN_TILES_Y"
    by (simp add: VIEWPORT_MAX_TILES_X_pos VIEWPORT_MIN_TILES_Y_pos)
  from lo have "0 < max (innerWidth / 2 / innerHeight)
                        (VIEWPORT_MIN_TILES_X c / VIEWPORT_MAX_TILES_Y c)"
    by (simp add: less_max_iff_disj)
  with hi show ?thesis
    by (simp add: aspectRatio_def)
qed

text \<open>A pass that is not a cache hit stores a positive width and a positive scale ratio.\<close>

lemma calculateViewport_miss_positive:
  assumes edge: "EDGE_MIN_WIDTH c < 320"
    and miss: "force \<or> this_cachedWindowHeight s \<noteq> Some (max 320 (window_innerHeight e))
                 \<or> this_cachedWindowWidth s \<noteq> Some (max 320 (window_innerWidth e))"
  shows "layoutPositive (snd (calculateViewport c force e s))"
proof -
  let ?iw = "max 320 (window_innerWidth e)" and ?ih = "max 320 (window_innerHeight e)"
  have ih: "0 < ?ih" by simp
  have w4: "0 < ?ih * aspectRatio c ?iw ?ih"
    using ih aspectRatio_pos [of c ?iw ?ih] by (rule mult_pos_pos)
  have wp: "0 < ?iw - EDGE_MIN_WIDTH c"
    using edge by simp
  have "0 < ?ih / VIEWPORT_MAX_TILES_Y c"
    using ih VIEWPORT_MAX_TILES_Y_pos [of c] by (rule divide_pos_pos)
  then have ts: "0 < max (?ih / VIEWPORT_MAX_TILES_Y c)
                         (?ih * aspectRatio c ?iw ?ih / VIEWPORT_MAX_TILES_X c)"
    by (simp add: less_max_iff_disj)
  have "0 < TILE_OUTER_SIZE * 10"
    using TILE_OUTER_SIZE_pos by simp
  with ts have sr: "0 < max (?ih / VIEWPORT_MAX_TILES_Y c)
                         (?ih * aspectRatio c ?iw ?ih / VIEWPORT_MAX_TILES_X c)
                        / (TILE_OUTER_SIZE * 10)"
    by (rule divide_pos_pos)
  from miss w4 wp sr show ?thesis
    by (auto simp add: calculateViewport_def Let_def layoutPositive_def)
qed

lemma calculateViewport_positive:
  assumes "EDGE_MIN_WIDTH c < 320" and "layoutPositive s"
  shows "layoutPositive (snd (calculateViewport c force e s))"
proof (cases "force \<or> this_cachedWindowHeight s \<noteq> Some (max 320 (window_innerHeight e))
                 \<or> this_cachedWindowWidth s \<noteq> Some (max 320 (window_innerWidth e))")
  case True
  with assms(1) show ?thesis by (rule calculateViewport_miss_positive)
next
  case False
  then have "calculateViewport c force e s = ([], s)"
    by (intro calculateViewport_hit) simp_all
  with assms(2) show ?thesis by simp
qed

lemma perform_positive:
  assumes "EDGE_MIN_WIDTH c < 320" and "layoutPositive s"
  shows "layoutPositive (perform c s k)"
proof (cases k)
  case (CalculateViewport force e)
  with assms show ?thesis by (simp add: calculateViewport_positive)
next
  case (PortraitToggleScene visible userAction)
  with assms(2) show ?thesis by (simp add: portraitToggleScene_def)
next
  case (ToggleVisibility visible)
  with assms(2) show ?thesis by (simp add: toggleVisibility_def layoutPositive_def)
qed

text \<open>
  The constructor's pass always computes (the cache keys are \<^verbatim>\<open>null\<close>), so the
  invariant holds from the construction on, whatever is called afterwards.
\<close>

lemma sceneAfter_positive:
  assumes "EDGE_MIN_WIDTH c < 320"
  shows "layoutPositive (sceneAfter c e0 calls)"
proof (induction calls rule: rev_induct)
  case Nil
  have "layoutPositive (snd (calculateViewport c False e0 newScene))"
    using assms by (rule calculateViewport_miss_positive) (simp add: newScene_def)
  then show ?case by (simp add: sceneAfter_def Scene_def)
next
  case (snoc k calls)
  then show ?case
    using assms by (simp add: sceneAfter_def perform_positive)
qed

subsection \<open>The example scenarios, evaluated\<close>

lemmas sample_defs =
  sampleConstants_def portraitWindow_def landscapeWindow_def smallWindow_def
  VIEWPORT_TILE_MARGIN_def VIEWPORT_MAX_TILES_X_def VIEWPORT_MIN_TILES_X_def
  VIEWPORT_MAX_TILES_Y_def VIEWPORT_MIN_TILES_Y_def
  TILE_SIZE_def TILE_MARGIN_def TILE_OUTER_SIZE_def

lemma sampleConstants_widths:
  "BLOCKLY_MIN_WIDTH sampleConstants = 450" "EDGE_MIN_WIDTH sampleConstants = 48"
  by (simp_all add: sampleConstants_def)

lemma aspectRatio_portraitWindow: "aspectRatio sampleConstants 1200 800 = 149 / 192"
  by (simp add: aspectRatio_def sample_defs)

lemma aspectRatio_landscapeWindow: "aspectRatio sampleConstants 1600 900 = 8 / 9"
  by (simp add: aspectRatio_def sample_defs)

lemma Scene_portraitWindow:
  "snd (Scene sampleConstants portraitWindow) =
     \<lparr>this_cachedWindowHeight = Some 800, this_cachedWindowWidth = Some 1200,
      this_portraitMode = True, this_width = Some 1152, this_scaleRatio = Some (125 / 126),
      this_visible = None\<rparr>"
  by (simp add: Scene_def calculateViewport_def newScene_def aspectRatio_def sample_defs)

lemma Scene_landscapeWindow:
  "snd (Scene sampleConstants landscapeWindow) =
     \<lparr>this_cachedWindowHeight = Some 900, this_cachedWindowWidth = Some 1600,
      this_portraitMode = False, this_width = Some 800, this_scaleRatio = Some (125 / 112),
      this_visible = None\<rparr>"
  by (simp add: Scene_def calculateViewport_def newScene_def aspectRatio_def sample_defs)

lemma shownPortraitScene_eq:
  "shownPortraitScene =
     \<lparr>this_cachedWindowHeight = Some 800, this_cachedWindowWidth = Some 1200,
      this_portraitMode = True, this_width = Some 1152, this_scaleRatio = Some (125 / 126),
      this_visible = Some True\<rparr>"
  by (simp add: shownPortraitScene_def Scene_portraitWindow toggleVisibility_def)

lemma shownLandscapeScene_eq:
  "shownLandscapeScene =
     \<lparr>this_cachedWindowHeight = Some 900, this_cachedWindowWidth = Some 1600,
      this_portraitMode = False, this_width = Some 800, this_scaleRatio = Some (125 / 112),
      this_visible = Some True\<rparr>"
  by (simp add: shownLandscapeScene_def Scene_landscapeWindow toggleVisibility_def)

subsection \<open>Rounding\<close>

text \<open>With the identity as rounding, the rounded pass is the exact one.\<close>

lemma constants_fp_exact:
  "VIEWPORT_MAX_TILES_X_fp (\<lambda>x. x) c = VIEWPORT_MAX_TILES_X c"
  "VIEWPORT_MIN_TILES_X_fp (\<lambda>x. x) c = VIEWPORT_MIN_TILES_X c"
  "VIEWPORT_MAX_TILES_Y_fp (\<lambda>x. x) c = VIEWPORT_MAX_TILES_Y c"
  "VIEWPORT_MIN_TILES_Y_fp (\<lambda>x. x) = VIEWPORT_MIN_TILES_Y"
  "TILE_OUTER_SIZE_fp (\<lambda>x. x) = TILE_OUTER_SIZE"
  by (simp_all add: VIEWPORT_MAX_TILES_X_fp_def VIEWPORT_MIN_TILES_X_fp_def
      VIEWPORT_MAX_TILES_Y_fp_def VIEWPORT_MIN_TILES_Y_fp_def VIEWPORT_TILE_MARGIN_fp_def
      TILE_OUTER_SIZE_fp_def TILE_MARGIN_fp_def VIEWPORT_MAX_TILES_X_def
      VIEWPORT_MIN_TILES_X_def VIEWPORT_MAX_TILES_Y_def VIEWPORT_MIN_TILES_Y_def
      VIEWPORT_TILE_MARGIN_def TILE_OUTER_SIZE_def TILE_MARGIN_def)

lemma aspectRatio_fp_exact:
  "aspectRatio_fp (\<lambda>x. x) c innerWidth innerHeight = aspectRatio c innerWidth innerHeight"
  by (simp add: aspectRatio_fp_def aspectRatio_def constants_fp_exact)

lemma calculateViewport_fp_exact:
  "calculateViewport_fp (\<lambda>x. x) c force e s = calculateViewport c force e s"
  unfolding calculateViewport_fp_def calculateViewport_def constants_fp_exact
    aspectRatio_fp_exact ..

lemma bitlen_eqI:
  assumes "2 ^ k \<le> n" and "n < 2 ^ Suc k"
  shows "bitlen n = int k + 1"
proof -
  have "bitlen n \<le> int k + 1"
    using assms(2) by (simp add: bitlen_le_iff_power nat_add_distrib)
  moreover have "\<not> bitlen n \<le> int k"
    using assms(1) by (simp add: bitlen_le_iff_power)
  ultimately show ?thesis by linarith
qed

text \<open>
  \<open>binary64\<close> on a normal number of the binade \<open>e\<close>: the significand is rounded at
  the unit \<open>2 powi (e - 52)\<close>. This is how the values below are computed.
\<close>

lemma binary64_normal:
  fixes x :: real and e :: int
  assumes lo: "2 powi e \<le> x" and hi: "x < 2 powi (e + 1)" and e: "- 1022 \<le> e"
  shows "binary64 x = of_int (roundEven (x / 2 powi (e - 52))) * 2 powi (e - 52)"
proof -
  define k where "k = nat (e + 1074)"
  have k: "int k = e + 1074" and k52: "52 \<le> k"
    using e by (simp_all add: k_def)
  have ms: "minSubnormal = 2 powi (- 1074)" and mpos: "0 < minSubnormal"
    by (simp_all add: minSubnormal_def power_int_minus field_simps)
  have pos: "0 < x"
    using lo by (rule less_le_trans [rotated]) simp
  have pk: "(2::real) ^ k * minSubnormal = 2 powi e"
  proof -
    have "(2::real) ^ k = 2 powi (int k)" by simp
    then have "(2::real) ^ k * minSubnormal = 2 powi (e + 1074) * 2 powi (- 1074)"
      unfolding k ms by simp
    also have "\<dots> = 2 powi (e + 1074 + (- 1074))"
      by (rule power_int_add [symmetric]) simp
    also have "e + 1074 + (- 1074) = e"
      by simp
    finally show ?thesis .
  qed
  let ?a = "x / minSubnormal"
  have alo: "2 ^ k \<le> ?a"
    using lo mpos by (simp add: pk [symmetric] field_simps)
  have ahi: "?a < 2 ^ Suc k"
  proof -
    have "2 powi (e + 1) = (2::real) powi e * 2"
      by (simp add: power_int_add)
    with hi have "x < 2 ^ Suc k * minSubnormal"
      by (simp add: pk [symmetric] mult.commute mult.left_commute)
    with mpos show ?thesis by (simp add: field_simps del: power_Suc)
  qed
  have "2 ^ k \<le> \<lfloor>?a\<rfloor>"
    using alo by (simp add: le_floor_iff)
  moreover have "\<lfloor>?a\<rfloor> < 2 ^ Suc k"
    using ahi by (simp add: floor_less_iff del: power_Suc)
  ultimately have b: "bitlen \<lfloor>?a\<rfloor> = int k + 1"
    by (rule bitlen_eqI)
  have ulp: "(if bitlen \<lfloor>?a\<rfloor> \<le> 53 then 1 else 2 ^ nat (bitlen \<lfloor>?a\<rfloor> - 53))
               = (2::real) ^ (k - 52)"
    using k52 by (auto simp add: b nat_diff_distrib)
  have sc: "(2::real) ^ (k - 52) * minSubnormal = 2 powi (e - 52)"
  proof -
    have "(2::real) ^ (k - 52) = 2 powi (int (k - 52))" by simp
    also have "int (k - 52) = (e - 52) + 1074"
      using k k52 by simp
    finally have "(2::real) ^ (k - 52) * minSubnormal = 2 powi (e - 52 + 1074) * 2 powi (- 1074)"
      unfolding ms by simp
    also have "\<dots> = 2 powi (e - 52 + 1074 + (- 1074))"
      by (rule power_int_add [symmetric]) simp
    also have "e - 52 + 1074 + (- 1074) = e - 52"
      by simp
    finally show ?thesis .
  qed
  have q: "?a / 2 ^ (k - 52) = x / 2 powi (e - 52)"
    by (simp add: sc [symmetric])
  have "binary64 x = of_int (roundEven (?a / 2 ^ (k - 52))) * 2 ^ (k - 52) * minSubnormal"
  proof -
    from pos have px: "\<bar>x\<bar> = x" "sgn x = 1"
      by simp_all
    show ?thesis
      unfolding binary64_def Let_def px ulp by simp
  qed
  also have "\<dots> = of_int (roundEven (x / 2 powi (e - 52))) * (2 ^ (k - 52) * minSubnormal)"
    unfolding q by simp
  finally show ?thesis
    unfolding sc .
qed

text \<open>The constants in doubles: 0.3, 0.6, 0.44999999999999996, 10.6, 7.45 and 9.6.\<close>

lemma binary64_constants:
  "binary64 0.3 = 5404319552844595 / 18014398509481984"
  "binary64 (5404319552844595 / 18014398509481984 * 2) = 5404319552844595 / 9007199254740992"
  "binary64 (5404319552844595 / 18014398509481984 * 1.5)
     = 2026619832316723 / 4503599627370496"
  "binary64 (10 + 5404319552844595 / 9007199254740992) = 5967269506265907 / 562949953421312"
  "binary64 (7 + 2026619832316723 / 4503599627370496) = 8387954305977549 / 1125899906842624"
  "binary64 (9 + 5404319552844595 / 9007199254740992) = 5404319552844595 / 562949953421312"
  by (simp add: binary64_normal [where e = "- 2"] roundEven_def power_int_minus,
      simp add: binary64_normal [where e = "- 1"] roundEven_def power_int_minus,
      simp add: binary64_normal [where e = "- 2"] roundEven_def power_int_minus,
      simp add: binary64_normal [where e = 3] roundEven_def power_int_minus,
      simp add: binary64_normal [where e = 2] roundEven_def power_int_minus,
      simp add: binary64_normal [where e = 3] roundEven_def power_int_minus)

lemma sampleConstants_fp:
  "VIEWPORT_MAX_TILES_X_fp binary64 sampleConstants = 5967269506265907 / 562949953421312"
  "VIEWPORT_MIN_TILES_X_fp binary64 sampleConstants = 8387954305977549 / 1125899906842624"
  "VIEWPORT_MAX_TILES_Y_fp binary64 sampleConstants = 5404319552844595 / 562949953421312"
  "VIEWPORT_MIN_TILES_Y_fp binary64 = 5404319552844595 / 562949953421312"
proof -
  have grid: "real (LEVEL_USABLE_MAX_COLS sampleConstants) = 10"
    "real (LEVEL_USABLE_MIN_COLS sampleConstants) = 7"
    "real (LEVEL_USABLE_ROWS sampleConstants) = 9"
    by (simp_all add: sampleConstants_def)
  show "VIEWPORT_MAX_TILES_X_fp binary64 sampleConstants = 5967269506265907 / 562949953421312"
    unfolding VIEWPORT_MAX_TILES_X_fp_def VIEWPORT_TILE_MARGIN_fp_def grid binary64_constants ..
  show "VIEWPORT_MIN_TILES_X_fp binary64 sampleConstants = 8387954305977549 / 1125899906842624"
    unfolding VIEWPORT_MIN_TILES_X_fp_def VIEWPORT_TILE_MARGIN_fp_def grid binary64_constants ..
  show "VIEWPORT_MAX_TILES_Y_fp binary64 sampleConstants = 5404319552844595 / 562949953421312"
    unfolding VIEWPORT_MAX_TILES_Y_fp_def VIEWPORT_TILE_MARGIN_fp_def grid binary64_constants ..
  show "VIEWPORT_MIN_TILES_Y_fp binary64 = 5404319552844595 / 562949953421312"
    unfolding VIEWPORT_MIN_TILES_Y_fp_def VIEWPORT_TILE_MARGIN_fp_def binary64_constants ..
qed

text \<open>The two bounds of the aspect ratio: 0.7760416666666667 and 1.1041666666666667.\<close>

lemma binary64_bounds:
  "binary64 (8387954305977549 / 1125899906842624 / (5404319552844595 / 562949953421312))
     = 3494980960823979 / 4503599627370496"
  "binary64 (5967269506265907 / 562949953421312 / (5404319552844595 / 562949953421312))
     = 4972724588554923 / 4503599627370496"
  by (simp add: binary64_normal [where e = "- 1"] roundEven_def power_int_minus,
      simp add: binary64_normal [where e = 0] roundEven_def power_int_minus)

text \<open>
  The landscape window, 1600 by 900 with a toolbar of 250: 1600 / 2 / 900 is
  0.8888888888888888, times 900 is 800, and 1350 - 800 is 550.
\<close>

lemma binary64_landscapeWindow:
  "binary64 (1600 / 2) = 800"
  "binary64 (800 / 900) = 2001599834386887 / 2251799813685248"
  "binary64 (900 * (2001599834386887 / 2251799813685248)) = 800"
  "binary64 (1600 - 250) = 1350"
  "binary64 (1350 - 800) = 550"
  by (simp add: binary64_normal [where e = 9] roundEven_def power_int_minus,
      simp add: binary64_normal [where e = "- 1"] roundEven_def power_int_minus,
      simp add: binary64_normal [where e = 9] roundEven_def power_int_minus,
      simp add: binary64_normal [where e = 10] roundEven_def power_int_minus,
      simp add: binary64_normal [where e = 9] roundEven_def power_int_minus)

lemma aspectRatio_fp_landscapeWindow:
  "aspectRatio_fp binary64 sampleConstants 1600 900 = 2001599834386887 / 2251799813685248"
  unfolding aspectRatio_fp_def sampleConstants_fp binary64_bounds binary64_landscapeWindow
  by simp

text \<open>
  The window of the edge: 1000 / 2 / 480 is 1.0416666666666667, times 480 is
  500.00000000000006, and 950 less that is 449.99999999999994.
\<close>

lemma binary64_edgeWindow:
  "binary64 (1000 / 2) = 500"
  "binary64 (500 / 480) = 4691249611844267 / 4503599627370496"
  "binary64 (480 * (4691249611844267 / 4503599627370496)) = 8796093022208001 / 17592186044416"
  "binary64 (1000 - 50) = 950"
  "binary64 (950 - 8796093022208001 / 17592186044416) = 7916483719987199 / 17592186044416"
  "binary64 (1000 - 48) = 952"
  by (simp add: binary64_normal [where e = 8] roundEven_def power_int_minus,
      simp add: binary64_normal [where e = 0] roundEven_def power_int_minus,
      simp add: binary64_normal [where e = 8] roundEven_def power_int_minus,
      simp add: binary64_normal [where e = 9] roundEven_def power_int_minus,
      simp add: binary64_normal [where e = 8] roundEven_def power_int_minus,
      simp add: binary64_normal [where e = 9] roundEven_def power_int_minus)

lemma aspectRatio_fp_edgeWindow:
  "aspectRatio_fp binary64 sampleConstants 1000 480 = 4691249611844267 / 4503599627370496"
  unfolding aspectRatio_fp_def sampleConstants_fp binary64_bounds binary64_edgeWindow
  by simp

text \<open>
  At the window of the edge the exact pass and the pass in doubles part: the exact one
  stays in landscape with the width 500, the one in doubles, as the code, goes to
  portrait with the width 952.
\<close>

lemma calculateViewport_edgeWindow:
  "\<not> this_portraitMode (snd (calculateViewport sampleConstants False edgeWindow newScene))"
  "this_width (snd (calculateViewport sampleConstants False edgeWindow newScene)) = Some 500"
  by (simp_all add: calculateViewport_def newScene_def edgeWindow_def aspectRatio_def sample_defs)

lemma calculateViewport_fp_edgeWindow:
  "this_portraitMode (snd (calculateViewport_fp binary64 sampleConstants False edgeWindow newScene))"
  "this_width (snd (calculateViewport_fp binary64 sampleConstants False edgeWindow newScene))
     = Some 952"
proof -
  have dims: "max 320 (window_innerWidth edgeWindow) = 1000"
    "max 320 (window_innerHeight edgeWindow) = 480"
    "blockly_getToolbarWidth edgeWindow = 50"
    by (simp_all add: edgeWindow_def)
  have below: "binary64 (binary64 (1000 - 50)
      - binary64 (480 * aspectRatio_fp binary64 sampleConstants 1000 480))
    < BLOCKLY_MIN_WIDTH sampleConstants"
    unfolding aspectRatio_fp_edgeWindow binary64_edgeWindow sampleConstants_widths by simp
  have edge: "binary64 (1000 - EDGE_MIN_WIDTH sampleConstants) = 952"
    unfolding sampleConstants_widths by (rule binary64_edgeWindow)
  show "this_portraitMode
      (snd (calculateViewport_fp binary64 sampleConstants False edgeWindow newScene))"
    using below by (simp add: calculateViewport_fp_def Let_def dims newScene_def)
  show "this_width (snd (calculateViewport_fp binary64 sampleConstants False edgeWindow newScene))
      = Some 952"
    using below edge by (simp add: calculateViewport_fp_def Let_def dims newScene_def)
qed

subsection \<open>The portrait decision\<close>



text \<open>
  C2 (landscape stability). A call that passes the cache check and finds
  \<open>workspaceWidth - width \<ge> BLOCKLY_MIN_WIDTH\<close> stores \<open>portraitMode_ = false\<close>
  and the width of line 196, the clamped height times the aspect ratio, unmodified.
  The difference that line 204 compares and the product that line 196 stores are the
  numbers the code computes: the statement is about the pass with a rounding after
  every operation, and holds for every rounding, the one of the doubles and the
  identity among them.
\<close>

theorem landscape_stability:
  assumes "force \<or> this_cachedWindowHeight s \<noteq> Some (max 320 (window_innerHeight e))
                 \<or> this_cachedWindowWidth s \<noteq> Some (max 320 (window_innerWidth e))"
    and "rd (rd (max 320 (window_innerWidth e) - blockly_getToolbarWidth e)
             - rd (max 320 (window_innerHeight e)
                    * aspectRatio_fp rd c (max 320 (window_innerWidth e))
                        (max 320 (window_innerHeight e))))
         \<ge> BLOCKLY_MIN_WIDTH c"
  shows "\<not> this_portraitMode (snd (calculateViewport_fp rd c force e s)) \<and>
         this_width (snd (calculateViewport_fp rd c force e s)) =
           Some (rd (max 320 (window_innerHeight e)
                      * aspectRatio_fp rd c (max 320 (window_innerWidth e))
                          (max 320 (window_innerHeight e))))"
  using assms by (auto simp add: calculateViewport_fp_def Let_def)

text \<open>
  The second example scenario in doubles: 1600 by 900, toolbar 250, a forced pass. The
  aspect ratio is 0.8888888888888888, the width 800, and 1350 - 800 = 550 is not
  below 450.
\<close>

theorem landscape_stability_witness:
  "binary64 (binary64 (1600 - 250)
      - binary64 (900 * aspectRatio_fp binary64 sampleConstants 1600 900))
     \<ge> BLOCKLY_MIN_WIDTH sampleConstants \<and>
   \<not> this_portraitMode
       (snd (calculateViewport_fp binary64 sampleConstants True landscapeWindow newScene)) \<and>
   this_width (snd (calculateViewport_fp binary64 sampleConstants True landscapeWindow newScene))
     = Some 800"
proof -
  have dims: "max 320 (window_innerWidth landscapeWindow) = 1600"
    "max 320 (window_innerHeight landscapeWindow) = 900"
    "blockly_getToolbarWidth landscapeWindow = 250"
    by (simp_all add: landscapeWindow_def)
  have width: "binary64 (900 * aspectRatio_fp binary64 sampleConstants 1600 900) = 800"
    unfolding aspectRatio_fp_landscapeWindow by (rule binary64_landscapeWindow)
  have ample: "binary64 (binary64 (1600 - 250)
      - binary64 (900 * aspectRatio_fp binary64 sampleConstants 1600 900))
     \<ge> BLOCKLY_MIN_WIDTH sampleConstants"
    unfolding width binary64_landscapeWindow sampleConstants_widths by simp
  have forced: "True \<or> this_cachedWindowHeight newScene
                  \<noteq> Some (max 320 (window_innerHeight landscapeWindow))
                \<or> this_cachedWindowWidth newScene
                  \<noteq> Some (max 320 (window_innerWidth landscapeWindow))"
    by simp
  from landscape_stability [where rd = binary64 and c = sampleConstants
      and e = landscapeWindow and s = newScene, OF forced, unfolded dims, OF ample]
  have "\<not> this_portraitMode
       (snd (calculateViewport_fp binary64 sampleConstants True landscapeWindow newScene)) \<and>
     this_width (snd (calculateViewport_fp binary64 sampleConstants True landscapeWindow newScene))
       = Some (binary64 (900 * aspectRatio_fp binary64 sampleConstants 1600 900))" .
  with ample show ?thesis
    unfolding width by blast
qed

subsection \<open>The cache\<close>

text \<open>
  C3 (idempotence). After any call of \<open>calculateViewport\<close>, a second call with
  \<^verbatim>\<open>force = false\<close> and the same window dimensions takes the early return of line
  185: it performs no effect at all (no toolbar query, no write to the DOM) and leaves
  the whole scene, that is the width, the scale ratio, the portrait flag and the two
  cached window dimensions, as the first call left it. This holds whatever the scene
  was before the first call, whether or not the first call was forced, and whatever the
  toolbar width is at the second call.
\<close>

theorem recompute_idempotent:
  "calculateViewport c False (e\<lparr>blockly_getToolbarWidth := tb\<rparr>)
       (snd (calculateViewport c force e s)) =
     ([], snd (calculateViewport c force e s))"
  using calculateViewport_cache [of c force e s]
  by (intro calculateViewport_hit) simp_all

text \<open>The third example scenario: 1024 by 768, twice, on a new scene.\<close>

theorem recompute_idempotent_witness:
  "calculateViewport sampleConstants False smallWindow
       (snd (calculateViewport sampleConstants False smallWindow newScene)) =
     ([], snd (calculateViewport sampleConstants False smallWindow newScene)) \<and>
   fst (calculateViewport sampleConstants False smallWindow newScene) \<noteq> []"
proof -
  have "smallWindow\<lparr>blockly_getToolbarWidth := 250\<rparr> = smallWindow"
    by (simp add: smallWindow_def)
  with recompute_idempotent [where c = sampleConstants and e = smallWindow and tb = 250
      and force = False and s = newScene]
  show ?thesis
    by (simp add: calculateViewport_def Let_def newScene_def)
qed

text \<open>
  C10 (a cache hit does not look at the toolbar). When \<^verbatim>\<open>force\<close> is false and
  both clamped window dimensions equal the cached ones, the call returns before line
  202: whatever the toolbar width \<open>tb\<close> now is, the result is the same, no effect is
  performed and the scene, with its portrait flag and width, stays as the earlier pass
  left it. A call that is forced, or whose clamped window dimensions differ from the
  cached ones, does query the toolbar, first of all its effects.
\<close>

theorem cache_hit_ignores_toolbar:
  assumes "this_cachedWindowHeight s = Some (max 320 (window_innerHeight e))"
    and "this_cachedWindowWidth s = Some (max 320 (window_innerWidth e))"
  shows "calculateViewport c False (e\<lparr>blockly_getToolbarWidth := tb\<rparr>) s = ([], s) \<and>
         (force' \<or> max 320 (window_innerHeight e') \<noteq> max 320 (window_innerHeight e)
                 \<or> max 320 (window_innerWidth e') \<noteq> max 320 (window_innerWidth e) \<longrightarrow>
            hd (fst (calculateViewport c force' e' s)) = Call_blockly_getToolbarWidth)"
proof
  show "calculateViewport c False (e\<lparr>blockly_getToolbarWidth := tb\<rparr>) s = ([], s)"
    using assms by (intro calculateViewport_hit) simp_all
next
  show "force' \<or> max 320 (window_innerHeight e') \<noteq> max 320 (window_innerHeight e)
                 \<or> max 320 (window_innerWidth e') \<noteq> max 320 (window_innerWidth e) \<longrightarrow>
            hd (fst (calculateViewport c force' e' s)) = Call_blockly_getToolbarWidth"
    using assms by (auto simp add: calculateViewport_def Let_def)
qed

text \<open>
  The scene was laid out at 1600 by 900 beside a toolbar of 250 pixels: landscape. The
  toolbar then grows to 700 pixels. An unforced pass at the same window size performs
  nothing and keeps the landscape layout with its width of 800; a forced one asks for
  the toolbar width first.
\<close>

theorem cache_hit_ignores_toolbar_witness:
  "this_cachedWindowHeight shownLandscapeScene = Some 900 \<and>
   this_cachedWindowWidth shownLandscapeScene = Some 1600 \<and>
   calculateViewport sampleConstants False
       (landscapeWindow\<lparr>blockly_getToolbarWidth := 700\<rparr>) shownLandscapeScene =
     ([], shownLandscapeScene) \<and>
   \<not> this_portraitMode shownLandscapeScene \<and>
   this_width shownLandscapeScene = Some 800 \<and>
   hd (fst (calculateViewport sampleConstants True
       (landscapeWindow\<lparr>blockly_getToolbarWidth := 700\<rparr>) shownLandscapeScene))
     = Call_blockly_getToolbarWidth"
proof -
  have h: "this_cachedWindowHeight shownLandscapeScene
             = Some (max 320 (window_innerHeight landscapeWindow))"
    by (simp add: shownLandscapeScene_eq landscapeWindow_def)
  have w: "this_cachedWindowWidth shownLandscapeScene
             = Some (max 320 (window_innerWidth landscapeWindow))"
    by (simp add: shownLandscapeScene_eq landscapeWindow_def)
  from cache_hit_ignores_toolbar [OF h w, where c = sampleConstants and tb = 700
      and force' = True and e' = "landscapeWindow\<lparr>blockly_getToolbarWidth := 700\<rparr>"]
  have "calculateViewport sampleConstants False
       (landscapeWindow\<lparr>blockly_getToolbarWidth := 700\<rparr>) shownLandscapeScene =
     ([], shownLandscapeScene)"
    and "hd (fst (calculateViewport sampleConstants True
       (landscapeWindow\<lparr>blockly_getToolbarWidth := 700\<rparr>) shownLandscapeScene))
     = Call_blockly_getToolbarWidth"
    by blast+
  moreover have "this_cachedWindowHeight shownLandscapeScene = Some 900"
    "this_cachedWindowWidth shownLandscapeScene = Some 1600"
    "\<not> this_portraitMode shownLandscapeScene"
    "this_width shownLandscapeScene = Some 800"
    by (simp_all add: shownLandscapeScene_eq)
  ultimately show ?thesis
    by blast
qed

text \<open>
  C7 (the floor of 320). A window dimension below 320 is read as 320, each one on its
  own: the pass returns the same effects and the same scene as with that dimension at
  320, and with both below 320 the same as in a window of 320 by 320.
\<close>

theorem floor_320:
  "(window_innerWidth e < 320 \<longrightarrow>
      calculateViewport c force e s =
      calculateViewport c force (e\<lparr>window_innerWidth := 320\<rparr>) s) \<and>
   (window_innerHeight e < 320 \<longrightarrow>
      calculateViewport c force e s =
      calculateViewport c force (e\<lparr>window_innerHeight := 320\<rparr>) s) \<and>
   (window_innerWidth e < 320 \<and> window_innerHeight e < 320 \<longrightarrow>
      calculateViewport c force e s =
      calculateViewport c force (e\<lparr>window_innerWidth := 320, window_innerHeight := 320\<rparr>) s)"
  by (intro conjI impI calculateViewport_clamped) simp_all

theorem floor_320_witness:
  "(100::real) < 320 \<and> (200::real) < 320 \<and>
   calculateViewport sampleConstants False
     \<lparr>window_innerWidth = 100, window_innerHeight = 200, blockly_getToolbarWidth = 50\<rparr> newScene =
   calculateViewport sampleConstants False
     \<lparr>window_innerWidth = 320, window_innerHeight = 320, blockly_getToolbarWidth = 50\<rparr> newScene"
proof -
  let ?e = "\<lparr>window_innerWidth = 100, window_innerHeight = 200, blockly_getToolbarWidth = 50\<rparr>"
  have below: "window_innerWidth ?e < 320 \<and> window_innerHeight ?e < 320"
    by simp
  from floor_320 [where e = ?e and c = sampleConstants and force = False and s = newScene] below
  have "calculateViewport sampleConstants False ?e newScene =
        calculateViewport sampleConstants False
          (?e\<lparr>window_innerWidth := 320, window_innerHeight := 320\<rparr>) newScene"
    by blast
  then show ?thesis
    by simp
qed

subsection \<open>The numbers of a pass\<close>

text \<open>
  C4 (bounds of the aspect ratio). When the constants satisfy
  \<open>VIEWPORT_MIN_TILES_X / VIEWPORT_MAX_TILES_Y \<le> VIEWPORT_MAX_TILES_X / VIEWPORT_MIN_TILES_Y\<close>,
  the aspect ratio of lines 193 to 195 lies in the closed interval between the two
  quotients, for every window.
\<close>

theorem aspectRatio_bounds:
  assumes "VIEWPORT_MIN_TILES_X c / VIEWPORT_MAX_TILES_Y c
             \<le> VIEWPORT_MAX_TILES_X c / VIEWPORT_MIN_TILES_Y"
  shows "VIEWPORT_MIN_TILES_X c / VIEWPORT_MAX_TILES_Y c \<le> aspectRatio c innerWidth innerHeight \<and>
         aspectRatio c innerWidth innerHeight \<le> VIEWPORT_MAX_TILES_X c / VIEWPORT_MIN_TILES_Y"
  using assms by (simp add: aspectRatio_def)

text \<open>
  With the sample constants the interval is from 7.45 / 9.6 to 10.6 / 9.6; a window of
  4000 by 320 has the half-width to height ratio 6.25 and gets the upper bound.
\<close>

theorem aspectRatio_bounds_witness:
  "VIEWPORT_MIN_TILES_X sampleConstants / VIEWPORT_MAX_TILES_Y sampleConstants
     \<le> VIEWPORT_MAX_TILES_X sampleConstants / VIEWPORT_MIN_TILES_Y \<and>
   VIEWPORT_MIN_TILES_X sampleConstants / VIEWPORT_MAX_TILES_Y sampleConstants
     \<le> aspectRatio sampleConstants 4000 320 \<and>
   aspectRatio sampleConstants 4000 320
     \<le> VIEWPORT_MAX_TILES_X sampleConstants / VIEWPORT_MIN_TILES_Y \<and>
   aspectRatio sampleConstants 4000 320 = 53 / 48"
proof -
  have valid: "VIEWPORT_MIN_TILES_X sampleConstants / VIEWPORT_MAX_TILES_Y sampleConstants
                 \<le> VIEWPORT_MAX_TILES_X sampleConstants / VIEWPORT_MIN_TILES_Y"
    by (simp add: sample_defs)
  have val: "aspectRatio sampleConstants 4000 320 = 53 / 48"
    by (simp add: aspectRatio_def sample_defs)
  from valid val aspectRatio_bounds [OF valid, where innerWidth = 4000 and innerHeight = 320]
  show ?thesis
    by blast
qed

text \<open>
  C6 (scale ratio). A call that passes the cache check stores the scale ratio
  \<open>tileSize / (TILE_OUTER_SIZE * 10)\<close>, where \<open>tileSize\<close> is the larger of
  \<open>innerHeight / VIEWPORT_MAX_TILES_Y\<close> and \<open>width / VIEWPORT_MAX_TILES_X\<close> and
  \<open>width\<close> is the clamped height times the aspect ratio: the value of line 196, in the
  portrait branch too, where the stored width is another one.
\<close>

theorem scaleRatio_formula:
  assumes "force \<or> this_cachedWindowHeight s \<noteq> Some (max 320 (window_innerHeight e))
                 \<or> this_cachedWindowWidth s \<noteq> Some (max 320 (window_innerWidth e))"
  shows "this_scaleRatio (snd (calculateViewport c force e s)) =
           Some (max (max 320 (window_innerHeight e) / VIEWPORT_MAX_TILES_Y c)
                     (max 320 (window_innerHeight e)
                        * aspectRatio c (max 320 (window_innerWidth e))
                                        (max 320 (window_innerHeight e))
                        / VIEWPORT_MAX_TILES_X c)
                 / (TILE_OUTER_SIZE * 10))"
  using assms by (auto simp add: calculateViewport_def Let_def)

text \<open>
  In the portrait scenario the stored width is 1152, and the tile size is
  800 / 9.6 (with 1152 / 10.6 in the place of the second candidate it would be larger):
  the scale ratio is (800 / 9.6) / 84 = 125 / 126.
\<close>

theorem scaleRatio_formula_witness:
  "this_cachedWindowWidth newScene \<noteq> Some 1200 \<and>
   this_portraitMode (snd (calculateViewport sampleConstants False portraitWindow newScene)) \<and>
   this_scaleRatio (snd (calculateViewport sampleConstants False portraitWindow newScene)) =
     Some (max (800 / VIEWPORT_MAX_TILES_Y sampleConstants)
               (800 * aspectRatio sampleConstants 1200 800 / VIEWPORT_MAX_TILES_X sampleConstants)
           / (TILE_OUTER_SIZE * 10)) \<and>
   this_scaleRatio (snd (calculateViewport sampleConstants False portraitWindow newScene)) =
     Some (125 / 126)"
proof -
  have miss: "False \<or> this_cachedWindowHeight newScene
                  \<noteq> Some (max 320 (window_innerHeight portraitWindow))
                \<or> this_cachedWindowWidth newScene
                  \<noteq> Some (max 320 (window_innerWidth portraitWindow))"
    by (simp add: newScene_def)
  have dims: "max 320 (window_innerHeight portraitWindow) = 800"
    "max 320 (window_innerWidth portraitWindow) = 1200"
    by (simp_all add: portraitWindow_def)
  have formula: "this_scaleRatio
      (snd (calculateViewport sampleConstants False portraitWindow newScene)) =
     Some (max (800 / VIEWPORT_MAX_TILES_Y sampleConstants)
               (800 * aspectRatio sampleConstants 1200 800 / VIEWPORT_MAX_TILES_X sampleConstants)
           / (TILE_OUTER_SIZE * 10))"
    using scaleRatio_formula [OF miss, where c = sampleConstants] unfolding dims .
  have num: "max (800 / VIEWPORT_MAX_TILES_Y sampleConstants)
               (800 * aspectRatio sampleConstants 1200 800 / VIEWPORT_MAX_TILES_X sampleConstants)
             / (TILE_OUTER_SIZE * 10) = 125 / 126"
    by (simp add: aspectRatio_portraitWindow) (simp add: sample_defs)
  have scene: "snd (calculateViewport sampleConstants False portraitWindow newScene) =
                 snd (Scene sampleConstants portraitWindow)"
    by (simp add: Scene_def)
  have portrait: "this_portraitMode
      (snd (calculateViewport sampleConstants False portraitWindow newScene))"
    by (simp add: scene Scene_portraitWindow)
  have cache: "this_cachedWindowWidth newScene \<noteq> Some 1200"
    by (simp add: newScene_def)
  from formula num have "this_scaleRatio
      (snd (calculateViewport sampleConstants False portraitWindow newScene)) = Some (125 / 126)"
    by (simp only:)
  with cache portrait formula show ?thesis
    by blast
qed

text \<open>
  C5 (no degenerate layout). With \<open>EDGE_MIN_WIDTH\<close> below the floor of 320, every call
  of \<open>calculateViewport\<close>, forced or not, in any window and with any toolbar width, on
  a scene that was constructed and then received any sequence of calls, leaves a stored
  width and a stored scale ratio that are strictly positive. In the landscape branch
  the width is the clamped height times an aspect ratio that is positive because both
  bounds of its clamp are; in the portrait branch it is at least
  \<open>320 - EDGE_MIN_WIDTH\<close>; on a cache hit it is the width of an earlier pass.
\<close>

theorem layout_positive:
  assumes "EDGE_MIN_WIDTH c < 320"
  shows "layoutPositive (snd (calculateViewport c force e (sceneAfter c e0 calls)))"
  using assms sceneAfter_positive [OF assms] by (rule calculateViewport_positive)

theorem layout_positive_witness:
  "EDGE_MIN_WIDTH sampleConstants < 320 \<and>
   layoutPositive (snd (calculateViewport sampleConstants True portraitWindow
     (sceneAfter sampleConstants landscapeWindow
        [ToggleVisibility True, CalculateViewport False smallWindow,
         PortraitToggleScene False True])))"
proof -
  have edge: "EDGE_MIN_WIDTH sampleConstants < 320"
    by (simp add: sampleConstants_def)
  from edge layout_positive [OF edge] show ?thesis
    by simp
qed

subsection \<open>The width handed to the workspace\<close>

text \<open>
  C8 (getWidth). \<open>getWidth\<close> returns 0 when the scene is not visible (\<^verbatim>\<open>visible_\<close>
  is \<^verbatim>\<open>false\<close>, or still \<^verbatim>\<open>undefined\<close>), \<open>EDGE_MIN_WIDTH\<close> when it is visible
  and in portrait mode, and the stored \<^verbatim>\<open>width_\<close> otherwise. The visibility is the
  one set by \<open>toggleVisibility\<close>.
\<close>

theorem getWidth_cases:
  "(this_visible s \<noteq> Some True \<longrightarrow> getWidth c s = Some 0) \<and>
   (this_visible s = Some True \<and> this_portraitMode s \<longrightarrow>
      getWidth c s = Some (EDGE_MIN_WIDTH c)) \<and>
   (this_visible s = Some True \<and> \<not> this_portraitMode s \<longrightarrow>
      getWidth c s = this_width s) \<and>
   getWidth c (snd (toggleVisibility False s)) = Some 0 \<and>
   getWidth c (snd (toggleVisibility True s)) =
     (if this_portraitMode s then Some (EDGE_MIN_WIDTH c) else this_width s)"
  by (simp add: getWidth_def toggleVisibility_def)

theorem getWidth_cases_witness:
  "this_visible (snd (Scene sampleConstants landscapeWindow)) \<noteq> Some True \<and>
   getWidth sampleConstants (snd (Scene sampleConstants landscapeWindow)) = Some 0 \<and>
   this_visible shownPortraitScene = Some True \<and> this_portraitMode shownPortraitScene \<and>
   getWidth sampleConstants shownPortraitScene = Some 48 \<and>
   this_visible shownLandscapeScene = Some True \<and> \<not> this_portraitMode shownLandscapeScene \<and>
   getWidth sampleConstants shownLandscapeScene = Some 800"
  using getWidth_cases [where s = "snd (Scene sampleConstants landscapeWindow)"
      and c = sampleConstants]
    getWidth_cases [where s = shownPortraitScene and c = sampleConstants]
    getWidth_cases [where s = shownLandscapeScene and c = sampleConstants]
  by (simp add: Scene_landscapeWindow shownPortraitScene_eq shownLandscapeScene_eq
      sampleConstants_widths)

text \<open>
  C9 (the portrait toggle), as the code has it. \<open>portraitToggleScene\<close> leaves every
  member of the scene as it is: the width, the scale ratio, the portrait flag, the two
  cached window dimensions and also \<^verbatim>\<open>visible_\<close>, so that \<open>getWidth\<close> returns what
  it returned before. All it does is to set the class \<^verbatim>\<open>show\<close> of the parent element
  to the negation of \<open>visible\<close>, after a call of \<^verbatim>\<open>game.dismissTutorial\<close> when
  \<open>userAction\<close> is true.
\<close>

theorem portraitToggleScene_frame:
  "this_width (snd (portraitToggleScene visible userAction s)) = this_width s \<and>
   this_scaleRatio (snd (portraitToggleScene visible userAction s)) = this_scaleRatio s \<and>
   this_portraitMode (snd (portraitToggleScene visible userAction s)) = this_portraitMode s \<and>
   this_cachedWindowWidth (snd (portraitToggleScene visible userAction s)) =
     this_cachedWindowWidth s \<and>
   this_cachedWindowHeight (snd (portraitToggleScene visible userAction s)) =
     this_cachedWindowHeight s \<and>
   this_visible (snd (portraitToggleScene visible userAction s)) = this_visible s \<and>
   getWidth c (snd (portraitToggleScene visible userAction s)) = getWidth c s \<and>
   fst (portraitToggleScene visible False s) = [ParentEl_classList_toggle ''show'' (\<not> visible)] \<and>
   fst (portraitToggleScene visible True s) =
     [Call_game_dismissTutorial ''codelab_tray.mp4'',
      ParentEl_classList_toggle ''show'' (\<not> visible)]"
  by (simp add: portraitToggleScene_def)

text \<open>
  C9 as it is stated has the toggle change what \<open>getWidth\<close> returns for a hidden
  viewport. It does not: on the visible scene in portrait mode \<open>getWidth\<close> is 48
  before the toggle and 48 after it, whether the toggle shows or hides and whether or
  not a user caused it; on the same scene hidden by \<open>toggleVisibility\<close> it is 0 before
  and after. What \<open>getWidth\<close> reads is \<^verbatim>\<open>visible_\<close>, which only
  \<open>toggleVisibility\<close> writes.
\<close>

theorem portraitToggleScene_getWidth_counterexample:
  "getWidth sampleConstants shownPortraitScene = Some 48 \<and>
   getWidth sampleConstants (snd (portraitToggleScene False True shownPortraitScene)) = Some 48 \<and>
   getWidth sampleConstants (snd (portraitToggleScene True True shownPortraitScene)) = Some 48 \<and>
   getWidth sampleConstants (snd (portraitToggleScene False False shownPortraitScene)) = Some 48 \<and>
   getWidth sampleConstants (snd (portraitToggleScene True False shownPortraitScene)) = Some 48 \<and>
   getWidth sampleConstants (snd (toggleVisibility False shownPortraitScene)) = Some 0 \<and>
   getWidth sampleConstants
     (snd (portraitToggleScene False True (snd (toggleVisibility False shownPortraitScene))))
     = Some 0 \<and>
   getWidth sampleConstants
     (snd (portraitToggleScene True True (snd (toggleVisibility False shownPortraitScene))))
     = Some 0"
  by (simp add: shownPortraitScene_eq portraitToggleScene_def toggleVisibility_def getWidth_def
      sampleConstants_def)

end
